theory Spec2Isabelle
  imports Main
begin

section \<open>Python values and exceptions\<close>

text \<open>
  The exceptions the methods of \<^verbatim>\<open>Firewall\<close> raise or let through.
  \<^verbatim>\<open>PanDeviceError\<close> carries the message of its raise site;
  \<^verbatim>\<open>PanXapiError\<close> is what the transport raises; the other three are raised
  by the interpreter on a bad subscript, a missing key or a missing attribute.
  The \<^verbatim>\<open>IndexError\<close> of \<^verbatim>\<open>refresh_interfaces\<close> is caught where it
  is raised and is a branch of \<open>router_of\<close> below.
\<close>

datatype error =
    PanDeviceError string
  | PanXapiError string
  | TypeError
  | KeyError
  | AttributeError

text \<open>
  What \<^verbatim>\<open>PanConfig(...).python()\<close> hands back: \<^verbatim>\<open>None\<close>, strings, lists and
  dictionaries keyed by strings. A dictionary is an association list read at the first
  binding of a key.
\<close>

datatype pyval =
    PNone
  | PStr string
  | PList "pyval list"
  | PDict "(string \<times> pyval) list"

text \<open>Truth value of a Python value, as \<^verbatim>\<open>if response:\<close> tests it.\<close>

fun truthy :: "pyval \<Rightarrow> bool" where
  "truthy PNone = False"
| "truthy (PStr s) = (s \<noteq> [])"
| "truthy (PList xs) = (xs \<noteq> [])"
| "truthy (PDict kvs) = (kvs \<noteq> [])"

text \<open>
  Subscription \<^verbatim>\<open>v[k]\<close> with a string key: \<^verbatim>\<open>KeyError\<close> on a dictionary
  without the key, \<^verbatim>\<open>TypeError\<close> on \<^verbatim>\<open>None\<close>, a string or a list.
\<close>

fun getitem :: "pyval \<Rightarrow> string \<Rightarrow> error + pyval" where
  "getitem (PDict kvs) k = (case map_of kvs k of None \<Rightarrow> Inl KeyError | Some v \<Rightarrow> Inr v)"
| "getitem PNone k = Inl TypeError"
| "getitem (PStr s) k = Inl TypeError"
| "getitem (PList xs) k = Inl TypeError"

text \<open>
  \<^verbatim>\<open>v.get(k, d)\<close>: only a dictionary has the method; any other value raises
  \<^verbatim>\<open>AttributeError\<close>.
\<close>

fun py_get :: "pyval \<Rightarrow> string \<Rightarrow> pyval \<Rightarrow> error + pyval" where
  "py_get (PDict kvs) k d = Inr (case map_of kvs k of None \<Rightarrow> d | Some v \<Rightarrow> v)"
| "py_get PNone k d = Inl AttributeError"
| "py_get (PStr s) k d = Inl AttributeError"
| "py_get (PList xs) k d = Inl AttributeError"

text \<open>
  The items a \<^verbatim>\<open>for\<close> loop visits: the elements of a list, the keys of a dictionary,
  the characters of a string; \<^verbatim>\<open>None\<close> is not iterable.
\<close>

fun iterate :: "pyval \<Rightarrow> error + pyval list" where
  "iterate (PList xs) = Inr xs"
| "iterate (PDict kvs) = Inr (map (\<lambda>kv. PStr (fst kv)) kvs)"
| "iterate (PStr s) = Inr (map (\<lambda>c. PStr [c]) s)"
| "iterate PNone = Inl TypeError"

text \<open>
  A value used as a dictionary key must be hashable: \<^verbatim>\<open>None\<close> and strings are,
  lists and dictionaries raise \<^verbatim>\<open>TypeError\<close>.
\<close>

fun key_of :: "pyval \<Rightarrow> error + string option" where
  "key_of PNone = Inr None"
| "key_of (PStr s) = Inr (Some s)"
| "key_of (PList xs) = Inl TypeError"
| "key_of (PDict kvs) = Inl TypeError"

text \<open>\<^verbatim>\<open>s.startswith(p)\<close>.\<close>

definition startswith :: "string \<Rightarrow> string \<Rightarrow> bool" where
  "startswith s p = (take (length p) s = p)"

section \<open>The objects\<close>

type_synonym ref = nat

datatype device_ref = This_firewall | Other_device

text \<open>
  An \<^verbatim>\<open>Interface\<close> object (class of \<^verbatim>\<open>network.py\<close>): the attributes the
  methods of \<^verbatim>\<open>Firewall\<close> read and write. \<open>if_parent\<close> refers to another
  \<^verbatim>\<open>Interface\<close> object of the store; \<open>if_subinterfaces\<close> is a dictionary, of
  which only the emptiness is read.
\<close>

record interface =
  if_name :: "string option"
  if_zone :: pyval
  if_router :: pyval
  if_subnets :: "pyval list"
  if_state :: pyval
  if_parent :: "ref option"
  if_subinterfaces :: "(string option \<times> ref) list"
  if_pan_device :: "device_ref option"

text \<open>The attributes of a \<^verbatim>\<open>Panorama\<close> object that \<^verbatim>\<open>generate_xapi\<close> reads.\<close>

record panorama_device =
  pano_hostname :: "string option"
  pano_port :: int
  pano_api_key :: "string option"

text \<open>The calls of the transport \<^verbatim>\<open>self.xapi\<close> that the methods issue.\<close>

datatype xapi_call =
    XOp "string option" "string option" bool "string option"
  | XSet string string
  | XDelete string
  | XGet string

text \<open>
  A \<^verbatim>\<open>Firewall\<close> and what its methods reach.
  \<^item> The attributes \<^verbatim>\<open>__init__\<close> sets (\<open>serial\<close>, \<open>vsys\<close>, \<open>vsys_name\<close>,
    \<open>panorama\<close>, \<open>multi_vsys\<close>) and those of the base class \<^verbatim>\<open>PanDevice\<close> that
    the methods read or write (\<open>hostname\<close>, \<open>api_key\<close>, \<open>port\<close>, \<open>timeout\<close>,
    \<open>classify_exceptions\<close>, \<open>xpath\<close>, \<open>config_changed\<close>, \<open>interfaces\<close>).
  \<^item> The transport \<^verbatim>\<open>self.xapi\<close>: the calls issued so far, oldest first, and its
    attribute \<open>element_root\<close>, the root of the last document received (\<open>'e\<close> is the
    type of XML elements).
  \<^item> The store of \<^verbatim>\<open>Interface\<close> objects: \<open>interfaces\<close> and \<open>if_parent\<close> hold
    references into \<open>objs\<close>; \<open>next_ref\<close> is the next reference to allocate.
\<close>

record 'e firewall =
  hostname :: "string option"
  api_key :: "string option"
  port :: int
  timeout :: int
  classify_exceptions :: bool
  xpath :: string
  config_changed :: bool
  interfaces :: "string option \<rightharpoonup> ref"
  serial :: "string option"
  vsys :: string
  vsys_name :: "string option"
  panorama :: "panorama_device option"
  multi_vsys :: "bool option"
  xapi_calls :: "xapi_call list"
  element_root :: "'e option"
  objs :: "ref \<Rightarrow> interface"
  next_ref :: ref

text \<open>
  A method returns the state it leaves and either the exception it raised (\<open>Inl\<close>) or
  its value (\<open>Inr\<close>).
\<close>

type_synonym ('e, 'a) outcome = "'e firewall \<times> (error + 'a)"

section \<open>Collaborators outside the file\<close>

text \<open>
  Modelled from the spec: the transport \<^verbatim>\<open>self.xapi\<close> (class \<^verbatim>\<open>PanXapi\<close> of the
  module \<^verbatim>\<open>pan.xapi\<close>, wrapped by \<^verbatim>\<open>PanDevice.XapiWrapper\<close> of \<^verbatim>\<open>base.py\<close>)
  is not among the source files. The spec's transport contract: \<^verbatim>\<open>op\<close>,
  \<^verbatim>\<open>get\<close>, \<^verbatim>\<open>set\<close> and \<^verbatim>\<open>delete\<close> send one request and raise a protocol
  error on any non-success response.
  \<open>reply\<close> is the remote device: the error or the document it answers a call with. The
  call is recorded; a document received becomes \<open>element_root\<close>.
\<close>

definition xapi :: "(xapi_call \<Rightarrow> error + 'e) \<Rightarrow> xapi_call \<Rightarrow> 'e firewall \<Rightarrow> ('e, unit) outcome" where
  "xapi reply c fw =
     (case reply c of
        Inl e \<Rightarrow> (fw\<lparr>xapi_calls := xapi_calls fw @ [c]\<rparr>, Inl e)
      | Inr doc \<Rightarrow> (fw\<lparr>xapi_calls := xapi_calls fw @ [c], element_root := Some doc\<rparr>, Inr ()))"

text \<open>
  Modelled from the spec: \<^verbatim>\<open>PanDevice.set_config_changed\<close> is a method of
  \<^verbatim>\<open>base.py\<close>, which is not among the source files. The spec does not describe it;
  it is taken to do what its name says: it sets the attribute \<open>config_changed\<close>, the
  mark that the configuration has changed, and nothing else.
\<close>

definition set_config_changed :: "'e firewall \<Rightarrow> 'e firewall" where
  "set_config_changed fw = fw\<lparr>config_changed := True\<rparr>"

text \<open>
  Modelled from the spec: the constructor of \<^verbatim>\<open>Interface\<close> is in \<^verbatim>\<open>network.py\<close>,
  which is not among the source files. As the spec's lifecycle has it, a node is created
  in memory with the attributes given, attached to nothing: the new object gets a fresh
  reference, the keyword arguments of the call, no parent, no subinterfaces and no
  device.
\<close>

definition Interface ::
    "string option \<Rightarrow> pyval \<Rightarrow> pyval \<Rightarrow> pyval list \<Rightarrow> pyval \<Rightarrow> 'e firewall \<Rightarrow> 'e firewall \<times> ref" where
  "Interface nm zn rt sn st fw =
     (fw\<lparr>objs := (objs fw)(next_ref fw :=
            \<lparr>if_name = nm, if_zone = zn, if_router = rt, if_subnets = sn, if_state = st,
             if_parent = None, if_subinterfaces = [], if_pan_device = None\<rparr>),
         next_ref := Suc (next_ref fw)\<rparr>,
      next_ref fw)"

section \<open>The methods of Firewall\<close>

subsection \<open>xpath_vsys, xpath_panorama\<close>

definition xpath_vsys :: "'e firewall \<Rightarrow> string" where
  "xpath_vsys fw =
     (if vsys fw = ''shared'' then ''/config/shared''
      else ''/config/devices/entry[@name='localhost.localdomain']/vsys/entry[@name=''
           @ [CHR 0x27] @ vsys fw @ [CHR 0x27] @ '']'')"

definition xpath_panorama :: "'e firewall \<Rightarrow> error + string" where
  "xpath_panorama fw =
     Inl (PanDeviceError ''Attempt to modify Panorama configuration on non-Panorama device'')"

subsection \<open>op\<close>

definition op ::
    "(xapi_call \<Rightarrow> error + 'e) \<Rightarrow> 'e firewall \<Rightarrow> string option \<Rightarrow> bool \<Rightarrow> string option
     \<Rightarrow> ('e, 'e option) outcome" where
  "op reply fw cmd cmd_xml extra_qs =
     (let v = (if vsys fw = ''shared'' then ''vsys1'' else vsys fw) in
      case xapi reply (XOp cmd (Some v) cmd_xml extra_qs) fw of
        (fw', Inl e) \<Rightarrow> (fw', Inl e)
      | (fw', Inr u) \<Rightarrow> (fw', Inr (element_root fw')))"

subsection \<open>generate_xapi\<close>

datatype xapi_constructor = XapiWrapper | PanXapi

text \<open>
  The keyword arguments of the constructor call. \<open>kw_pan_device\<close> is \<open>None\<close> when the
  key \<^verbatim>\<open>'pan_device'\<close> is not passed.
\<close>

record xapi_kwargs =
  kw_pan_device :: "device_ref option"
  kw_api_key :: "string option"
  kw_hostname :: "string option"
  kw_port :: int
  kw_timeout :: int
  kw_serial :: "string option"

text \<open>
  What \<^verbatim>\<open>generate_xapi\<close> returns: the object a constructor call of its own builds,
  or whatever the method of the superclass returns.
\<close>

datatype 'x generated = Constructed xapi_constructor xapi_kwargs | Superclass 'x

text \<open>
  \<open>super_generate_xapi\<close> stands for \<^verbatim>\<open>super(Firewall, self).generate_xapi()\<close>, a
  method of \<^verbatim>\<open>base.py\<close>.
\<close>

definition generate_xapi :: "('e firewall \<Rightarrow> 'x) \<Rightarrow> 'e firewall \<Rightarrow> 'x generated" where
  "generate_xapi super_generate_xapi fw =
     (case panorama fw of
        Some p \<Rightarrow>
          (if serial fw \<noteq> None then
             (if classify_exceptions fw then
                Constructed XapiWrapper
                  \<lparr>kw_pan_device = Some This_firewall, kw_api_key = pano_api_key p,
                   kw_hostname = pano_hostname p, kw_port = pano_port p,
                   kw_timeout = timeout fw, kw_serial = serial fw\<rparr>
              else
                Constructed PanXapi
                  \<lparr>kw_pan_device = None, kw_api_key = pano_api_key p,
                   kw_hostname = pano_hostname p, kw_port = pano_port p,
                   kw_timeout = timeout fw, kw_serial = serial fw\<rparr>)
           else Superclass (super_generate_xapi fw))
      | None \<Rightarrow> Superclass (super_generate_xapi fw))"

subsection \<open>create, delete\<close>

text \<open>An \<^verbatim>\<open>xml.etree.ElementTree\<close> element: tag, attributes, text, children.\<close>

datatype et_element = Element string "(string \<times> string) list" "string option" "et_element list"

text \<open>
  \<open>tostring\<close> stands for \<^verbatim>\<open>ET.tostring\<close> of the standard library and
  \<open>xpath_device\<close> for the value of \<^verbatim>\<open>self.xpath_device()\<close>, a method of
  \<^verbatim>\<open>base.py\<close>.
\<close>

definition create ::
    "(et_element \<Rightarrow> string) \<Rightarrow> string \<Rightarrow> (xapi_call \<Rightarrow> error + 'e) \<Rightarrow> 'e firewall
     \<Rightarrow> ('e, unit) outcome" where
  "create tostring xpath_device reply fw =
     (if startswith (vsys fw) ''vsys'' then
        (let element =
               Element ''entry'' [(''name'', vsys fw)] None
                 (case vsys_name fw of
                    None \<Rightarrow> []
                  | Some n \<Rightarrow> [Element ''display-name'' [] (Some n) []])
         in xapi reply (XSet (xpath_device @ ''/vsys'') (tostring element)) fw)
      else (fw, Inr ()))"

definition delete ::
    "string \<Rightarrow> (xapi_call \<Rightarrow> error + 'e) \<Rightarrow> 'e firewall \<Rightarrow> ('e, unit) outcome" where
  "delete xpath_device reply fw =
     (if startswith (vsys fw) ''vsys'' then
        xapi reply
          (XDelete (xpath_device @ ''/vsys/entry[@name='' @ [CHR 0x27] @ vsys fw @ [CHR 0x27] @ '']''))
          fw
      else (fw, Inr ()))"

subsection \<open>add_address_object\<close>

definition add_address_object ::
    "(xapi_call \<Rightarrow> error + 'e) \<Rightarrow> 'e firewall \<Rightarrow> string \<Rightarrow> string \<Rightarrow> string
     \<Rightarrow> ('e, unit) outcome" where
  "add_address_object reply fw nm address description =
     (let fw1 = set_config_changed fw;
          address_xpath = xpath fw1 @ ''/address/entry[@name='' @ [CHR 0x27] @ nm @ [CHR 0x27] @ '']'';
          element = ''<ip-netmask>'' @ address @ ''</ip-netmask><description>'' @ description
                    @ ''</description>''
      in xapi reply (XSet address_xpath element) fw1)"

subsection \<open>add_interface, delete_interface\<close>

text \<open>
  An argument of \<^verbatim>\<open>add_interface\<close>: an instance of \<^verbatim>\<open>Interface\<close> (or of a
  subclass), given by its reference, or any other Python value.
\<close>

datatype pyobj = Interface_object ref | Other_object pyval

text \<open>
  \<open>iface_apply\<close> stands for the method \<^verbatim>\<open>Interface.apply\<close> of \<^verbatim>\<open>network.py\<close>:
  it is given the reference of the object it is called on.
\<close>

definition add_interface ::
    "(ref \<Rightarrow> 'e firewall \<Rightarrow> ('e, unit) outcome) \<Rightarrow> 'e firewall \<Rightarrow> pyobj \<Rightarrow> bool
     \<Rightarrow> ('e, unit) outcome" where
  "add_interface iface_apply fw pan_interface apply =
     (let fw1 = set_config_changed fw in
      case pan_interface of
        Other_object v \<Rightarrow> (fw1, Inl TypeError)
      | Interface_object r \<Rightarrow>
          (let fw2 =
                 (case if_parent (objs fw1 r) of
                    None \<Rightarrow> fw1
                  | Some p \<Rightarrow>
                      (if interfaces fw1 (if_name (objs fw1 p)) = None
                       then fw1\<lparr>interfaces := (interfaces fw1)(if_name (objs fw1 p) \<mapsto> p)\<rparr>
                       else fw1));
               fw3 = fw2\<lparr>interfaces := (interfaces fw2)(if_name (objs fw2 r) \<mapsto> r)\<rparr>;
               fw4 = fw3\<lparr>objs := (objs fw3)(r := (objs fw3 r)\<lparr>if_pan_device := Some This_firewall\<rparr>)\<rparr>
           in if apply then iface_apply r fw4 else (fw4, Inr ())))"

text \<open>
  \<open>iface_delete\<close> stands for the method \<^verbatim>\<open>Interface.delete\<close> of \<^verbatim>\<open>network.py\<close>.
  When it raises, the last assignment of \<^verbatim>\<open>delete_interface\<close> is not reached.
\<close>

definition delete_interface ::
    "(ref \<Rightarrow> 'e firewall \<Rightarrow> ('e, unit) outcome) \<Rightarrow> 'e firewall \<Rightarrow> ref \<Rightarrow> bool \<Rightarrow> bool
     \<Rightarrow> ('e, unit) outcome" where
  "delete_interface iface_delete fw r apply delete_empty_parent =
     (let fw1 = set_config_changed fw;
          fw2 = fw1\<lparr>interfaces := (interfaces fw1)(if_name (objs fw1 r) := None)\<rparr>;
          fw3 = (if if_pan_device (objs fw2 r) = None
                 then fw2\<lparr>objs := (objs fw2)(r := (objs fw2 r)\<lparr>if_pan_device := Some This_firewall\<rparr>)\<rparr>
                 else fw2);
          empty_parent =
            (case if_parent (objs fw3 r) of
               None \<Rightarrow> None
             | Some p \<Rightarrow> if if_subinterfaces (objs fw3 p) = [] then Some p else None);
          res =
            (case (if delete_empty_parent then empty_parent else None) of
               Some p \<Rightarrow>
                 (let fw4 = fw3\<lparr>interfaces := (interfaces fw3)(if_name (objs fw3 r) := None)\<rparr>
                  in if apply then iface_delete p fw4 else (fw4, Inr ()))
             | None \<Rightarrow> if apply then iface_delete r fw3 else (fw3, Inr ()))
      in case res of
           (fw5, Inl e) \<Rightarrow> (fw5, Inl e)
         | (fw5, Inr u) \<Rightarrow>
             (fw5\<lparr>objs := (objs fw5)(r := (objs fw5 r)\<lparr>if_pan_device := None\<rparr>)\<rparr>, Inr ()))"

subsection \<open>refresh_interfaces\<close>

text \<open>
  The \<^verbatim>\<open>try\<close> block: \<^verbatim>\<open>response['response']['result']\<close>, where a
  \<^verbatim>\<open>KeyError\<close> becomes a \<^verbatim>\<open>PanDeviceError\<close> and any other exception passes.
\<close>

definition envelope :: "pyval \<Rightarrow> error + pyval" where
  "envelope response =
     (case getitem response ''response'' of
        Inl e \<Rightarrow>
          Inl (if e = KeyError
               then PanDeviceError ''Error reading response while refreshing interfaces'' else e)
      | Inr r \<Rightarrow>
          (case getitem r ''result'' of
             Inl e \<Rightarrow>
               Inl (if e = KeyError
                    then PanDeviceError ''Error reading response while refreshing interfaces'' else e)
           | Inr v \<Rightarrow> Inr v))"

text \<open>The first loop: \<^verbatim>\<open>hw[hw_entry['name']] = hw_entry\<close> for each entry.\<close>

fun hw_loop :: "pyval list \<Rightarrow> (string option \<rightharpoonup> pyval) \<Rightarrow> error + (string option \<rightharpoonup> pyval)" where
  "hw_loop [] hw = Inr hw"
| "hw_loop (hw_entry # rest) hw =
     (case getitem hw_entry ''name'' of
        Inl e \<Rightarrow> Inl e
      | Inr n \<Rightarrow>
          (case key_of n of
             Inl e \<Rightarrow> Inl e
           | Inr k \<Rightarrow> hw_loop rest (hw(k \<mapsto> hw_entry))))"

text \<open>
  \<^verbatim>\<open>entry['fwd'].split(":", 1)[1]\<close>, and \<^verbatim>\<open>entry['fwd']\<close> itself when the string
  has no colon (the \<^verbatim>\<open>IndexError\<close> caught). Only a string has \<^verbatim>\<open>split\<close>.
\<close>

fun router_of :: "pyval \<Rightarrow> error + pyval" where
  "router_of (PStr s) =
     Inr (PStr (if CHR '':'' \<in> set s then tl (dropWhile (\<lambda>c. c \<noteq> CHR '':'') s) else s))"
| "router_of PNone = Inl AttributeError"
| "router_of (PList xs) = Inl AttributeError"
| "router_of (PDict kvs) = Inl AttributeError"

text \<open>
  The second loop. The arguments of the constructor call are evaluated from left to right
  before the object is built; \<open>ifs\<close> is the local dictionary \<^verbatim>\<open>interfaces\<close>.
\<close>

fun ifnet_loop ::
    "(string option \<rightharpoonup> pyval) \<Rightarrow> pyval list \<Rightarrow> 'e firewall \<Rightarrow> (string option \<rightharpoonup> ref)
     \<Rightarrow> 'e firewall \<times> (error + (string option \<rightharpoonup> ref))" where
  "ifnet_loop hw [] fw ifs = (fw, Inr ifs)"
| "ifnet_loop hw (entry # rest) fw ifs =
     (case getitem entry ''fwd'' of
        Inl e \<Rightarrow> (fw, Inl e)
      | Inr fwd \<Rightarrow>
     (case router_of fwd of
        Inl e \<Rightarrow> (fw, Inl e)
      | Inr router \<Rightarrow>
     (case getitem entry ''name'' of
        Inl e \<Rightarrow> (fw, Inl e)
      | Inr nm \<Rightarrow>
     (case getitem entry ''zone'' of
        Inl e \<Rightarrow> (fw, Inl e)
      | Inr zn \<Rightarrow>
     (case getitem entry ''ip'' of
        Inl e \<Rightarrow> (fw, Inl e)
      | Inr ip \<Rightarrow>
     (case key_of nm of
        Inl e \<Rightarrow> (fw, Inl e)
      | Inr k \<Rightarrow>
     (case py_get (case hw k of None \<Rightarrow> PDict [] | Some h \<Rightarrow> h) ''state'' PNone of
        Inl e \<Rightarrow> (fw, Inl e)
      | Inr st \<Rightarrow>
     (case Interface k zn router [ip] st fw of
        (fw', r) \<Rightarrow> ifnet_loop hw rest fw' (ifs(k \<mapsto> r))))))))))"

text \<open>
  The statements after the \<^verbatim>\<open>try\<close> block: the branch \<^verbatim>\<open>if response:\<close> with its two
  early returns, the \<^verbatim>\<open>else\<close> that raises, and the final assignment
  \<^verbatim>\<open>self.interfaces = interfaces\<close>.
\<close>

definition rebuild :: "pyval \<Rightarrow> 'e firewall \<Rightarrow> ('e, unit) outcome" where
  "rebuild response fw =
     (if truthy response then
        (case py_get response ''hw'' (PDict []) of
           Inl e \<Rightarrow> (fw, Inl e)
         | Inr hw_result \<Rightarrow>
        if hw_result = PNone then (fw, Inr ()) else
        (case py_get hw_result ''entry'' (PList []) of
           Inl e \<Rightarrow> (fw, Inl e)
         | Inr hw_entries \<Rightarrow>
        (case iterate hw_entries of
           Inl e \<Rightarrow> (fw, Inl e)
         | Inr hes \<Rightarrow>
        (case hw_loop hes Map.empty of
           Inl e \<Rightarrow> (fw, Inl e)
         | Inr hw \<Rightarrow>
        (case py_get response ''ifnet'' (PDict []) of
           Inl e \<Rightarrow> (fw, Inl e)
         | Inr if_result \<Rightarrow>
        if if_result = PNone then (fw, Inr ()) else
        (case py_get if_result ''entry'' (PList []) of
           Inl e \<Rightarrow> (fw, Inl e)
         | Inr if_entries \<Rightarrow>
        (case iterate if_entries of
           Inl e \<Rightarrow> (fw, Inl e)
         | Inr ies \<Rightarrow>
        (case ifnet_loop hw ies fw Map.empty of
           (fw', Inl e) \<Rightarrow> (fw', Inl e)
         | (fw', Inr ifs) \<Rightarrow> (fw'\<lparr>interfaces := ifs\<rparr>, Inr ())))))))))
      else (fw, Inl (PanDeviceError ''Could not refresh interfaces'')))"

text \<open>
  \<open>python\<close> stands for \<^verbatim>\<open>PanConfig(self.xapi.element_root).python()\<close> of the module
  \<^verbatim>\<open>pan.config\<close>: the Python value of a document.
\<close>

definition refresh_interfaces ::
    "('e option \<Rightarrow> pyval) \<Rightarrow> (xapi_call \<Rightarrow> error + 'e) \<Rightarrow> 'e firewall \<Rightarrow> ('e, unit) outcome" where
  "refresh_interfaces python reply fw =
     (case xapi reply (XOp (Some ''show interface \"all\"'') None True None) fw of
        (fw1, Inl e) \<Rightarrow> (fw1, Inl e)
      | (fw1, Inr u) \<Rightarrow>
          (case envelope (python (element_root fw1)) of
             Inl e \<Rightarrow> (fw1, Inl e)
           | Inr response \<Rightarrow> rebuild response fw1))"

section \<open>Reading a response\<close>

text \<open>
  The names under which the entries of a list index an interface: the hashable
  \<^verbatim>\<open>entry['name']\<close> of each entry that has one.
\<close>

fun entry_names :: "pyval list \<Rightarrow> string option list" where
  "entry_names [] = []"
| "entry_names (entry # rest) =
     (case getitem entry ''name'' of
        Inl e \<Rightarrow> entry_names rest
      | Inr nm \<Rightarrow> (case key_of nm of Inl e \<Rightarrow> entry_names rest | Inr k \<Rightarrow> k # entry_names rest))"

text \<open>
  The interface entries of a remote result: the items of
  \<^verbatim>\<open>result.get('ifnet', {}).get('entry', [])\<close>.
\<close>

definition ifnet_entries :: "pyval \<Rightarrow> pyval list" where
  "ifnet_entries result =
     (case py_get result ''ifnet'' (PDict []) of
        Inl e \<Rightarrow> []
      | Inr if_result \<Rightarrow>
          (case py_get if_result ''entry'' (PList []) of
             Inl e \<Rightarrow> []
           | Inr if_entries \<Rightarrow> (case iterate if_entries of Inl e \<Rightarrow> [] | Inr ies \<Rightarrow> ies)))"


section \<open>Example objects\<close>

text \<open>
  In the examples a document is its own Python value, the device answers every call
  with one document or refuses every call, and the methods of \<^verbatim>\<open>Interface\<close> do
  nothing.
\<close>

definition python_of :: "pyval option \<Rightarrow> pyval" where
  "python_of d = (case d of None \<Rightarrow> PNone | Some v \<Rightarrow> v)"

definition answers :: "pyval \<Rightarrow> xapi_call \<Rightarrow> error + pyval" where
  "answers doc c = Inr doc"

definition refuses :: "xapi_call \<Rightarrow> error + pyval" where
  "refuses c = Inl (PanXapiError ''refused'')"

definition no_method :: "ref \<Rightarrow> pyval firewall \<Rightarrow> (pyval, unit) outcome" where
  "no_method r fw = (fw, Inr ())"

definition direct_connection :: "pyval firewall \<Rightarrow> string option" where
  "direct_connection fw = hostname fw"

definition no_interface :: interface where
  "no_interface =
     \<lparr>if_name = None, if_zone = PNone, if_router = PNone, if_subnets = [], if_state = PNone,
      if_parent = None, if_subinterfaces = [], if_pan_device = None\<rparr>"

text \<open>
  Object 0 is the interface \<^verbatim>\<open>ethernet1/1\<close>, with no subinterfaces registered;
  object 1 is \<^verbatim>\<open>ethernet1/1.5\<close>, whose parent is object 0.
\<close>

definition example_objs :: "ref \<Rightarrow> interface" where
  "example_objs =
     (\<lambda>r. no_interface)
       (0 := no_interface\<lparr>if_name := Some ''ethernet1/1''\<rparr>,
        1 := no_interface\<lparr>if_name := Some ''ethernet1/1.5'', if_parent := Some 0\<rparr>)"

definition example_fw :: "pyval firewall" where
  "example_fw =
     \<lparr>hostname = Some ''fw1.example.com'', api_key = Some ''key'', port = 443, timeout = 120,
      classify_exceptions = True,
      xpath = ''/config/devices/entry[@name='localhost.localdomain']/vsys/entry[@name='vsys1']'',
      config_changed = False,
      interfaces = [Some ''ethernet1/1'' \<mapsto> 0, Some ''ethernet1/1.5'' \<mapsto> 1],
      serial = None, vsys = ''vsys1'', vsys_name = None, panorama = None, multi_vsys = None,
      xapi_calls = [], element_root = None, objs = example_objs, next_ref = 2\<rparr>"

definition example_panorama :: panorama_device where
  "example_panorama =
     \<lparr>pano_hostname = Some ''panorama.example.com'', pano_port = 443,
      pano_api_key = Some ''pano-key''\<rparr>"

definition managed_fw :: "pyval firewall" where
  "managed_fw = example_fw\<lparr>panorama := Some example_panorama, serial := Some ''001122334455''\<rparr>"

text \<open>A result with one hardware entry and one interface entry, \<^verbatim>\<open>ethernet1/2\<close>.\<close>

definition one_interface_result :: pyval where
  "one_interface_result =
     PDict
       [(''hw'', PDict [(''entry'',
           PList [PDict [(''name'', PStr ''ethernet1/2''), (''state'', PStr ''up'')]])]),
        (''ifnet'', PDict [(''entry'',
           PList [PDict [(''name'', PStr ''ethernet1/2''), (''zone'', PStr ''trust''),
                         (''fwd'', PStr ''vr:default''), (''ip'', PStr ''10.0.0.1/24'')]])])]"

definition in_envelope :: "pyval \<Rightarrow> pyval" where
  "in_envelope result = PDict [(''response'', PDict [(''result'', result)])]"



section \<open>Scope prefix\<close>

text \<open>
  Claim C1. For a \<^verbatim>\<open>Firewall\<close> whose \<open>vsys\<close> is a vsys identifier,
  \<^verbatim>\<open>xpath_vsys\<close> returns the device path with the entry of that identifier; for
  \<open>vsys = 'shared'\<close> it returns exactly \<^verbatim>\<open>/config/shared\<close>. Switching \<open>vsys\<close>
  between the two changes the prefix of a resolved path and leaves the relative
  segment \<open>rel\<close> appended to it as it is.
\<close>

theorem xpath_vsys_scope:
  "(vsys fw = ''shared'' \<longrightarrow> xpath_vsys fw = ''/config/shared'')
   \<and> (vsys fw \<noteq> ''shared'' \<longrightarrow>
        xpath_vsys fw = ''/config/devices/entry[@name='localhost.localdomain']/vsys/entry[@name=''
                        @ [CHR 0x27] @ vsys fw @ [CHR 0x27] @ '']'')
   \<and> xpath_vsys (fw\<lparr>vsys := ''shared''\<rparr>) @ rel = ''/config/shared'' @ rel
   \<and> (v \<noteq> ''shared'' \<longrightarrow>
        xpath_vsys (fw\<lparr>vsys := v\<rparr>) @ rel =
          ''/config/devices/entry[@name='localhost.localdomain']/vsys/entry[@name=''
          @ [CHR 0x27] @ v @ [CHR 0x27] @ '']'' @ rel)"
  by (simp add: xpath_vsys_def)

text \<open>
  The spec's example: the address object \<^verbatim>\<open>web-server-1\<close> under \<open>vsys1\<close>, and
  under \<open>shared\<close>.
\<close>

theorem xpath_vsys_scope_witness:
  "xpath_vsys example_fw @ ''/address/entry[@name='web-server-1']''
     = ''/config/devices/entry[@name='localhost.localdomain']/vsys/entry[@name='vsys1']/address/entry[@name='web-server-1']''
   \<and> xpath_vsys (example_fw\<lparr>vsys := ''shared''\<rparr>) @ ''/address/entry[@name='web-server-1']''
     = ''/config/shared/address/entry[@name='web-server-1']''"
  using xpath_vsys_scope [of example_fw "''/address/entry[@name='web-server-1']''" "''vsys1''"]
  by (simp add: example_fw_def)

section \<open>Address objects\<close>

text \<open>
  Claim C2. Whatever the name, the address and the description, and whatever the device
  answers, \<^verbatim>\<open>add_address_object\<close> adds exactly one call to those issued before: a
  \<^verbatim>\<open>set\<close> at the firewall's xpath followed by the entry of the name, with the
  element made of the \<^verbatim>\<open>ip-netmask\<close> and the \<^verbatim>\<open>description\<close>, in that order.
\<close>

theorem add_address_object_one_set:
  "xapi_calls (fst (add_address_object reply fw nm address description)) =
     xapi_calls fw @
       [XSet (xpath fw @ ''/address/entry[@name='' @ [CHR 0x27] @ nm @ [CHR 0x27] @ '']'')
             (''<ip-netmask>'' @ address @ ''</ip-netmask><description>'' @ description
              @ ''</description>'')]"
  by (simp add: add_address_object_def set_config_changed_def xapi_def Let_def split: sum.splits)

text \<open>The spec's example, on a device that refuses the call.\<close>

theorem add_address_object_one_set_witness:
  "xapi_calls (fst (add_address_object refuses example_fw ''web-server-1'' ''10.1.1.5/32'' ''prod web'')) =
     [XSet ''/config/devices/entry[@name='localhost.localdomain']/vsys/entry[@name='vsys1']/address/entry[@name='web-server-1']''
           ''<ip-netmask>10.1.1.5/32</ip-netmask><description>prod web</description>'']"
  using add_address_object_one_set [of refuses example_fw "''web-server-1''" "''10.1.1.5/32''" "''prod web''"]
  by (simp add: example_fw_def)

section \<open>Panorama\<close>

text \<open>
  Claim C7. On every \<^verbatim>\<open>Firewall\<close>, whatever its attributes, \<^verbatim>\<open>xpath_panorama\<close>
  raises \<^verbatim>\<open>PanDeviceError\<close> and returns no path.
\<close>

theorem xpath_panorama_raises:
  "xpath_panorama fw =
     Inl (PanDeviceError ''Attempt to modify Panorama configuration on non-Panorama device'')
   \<and> (\<forall>p. xpath_panorama fw \<noteq> Inr p)"
  by (simp add: xpath_panorama_def)

theorem xpath_panorama_raises_witness:
  "xpath_panorama managed_fw =
     Inl (PanDeviceError ''Attempt to modify Panorama configuration on non-Panorama device'')
   \<and> xpath_panorama managed_fw \<noteq> Inr ''/config/panorama''"
  using xpath_panorama_raises [of managed_fw]
  by simp

text \<open>
  Claim C8. \<^verbatim>\<open>generate_xapi\<close> builds a transport of its own, with the hostname, the
  port and the key of the \<open>panorama\<close> object and with this firewall's \<open>serial\<close> as the
  target, exactly when both \<open>panorama\<close> and \<open>serial\<close> are not \<open>None\<close>; otherwise it
  returns what the method of the superclass returns.
\<close>

theorem generate_xapi_via_panorama:
  "(panorama fw = Some p \<and> serial fw = Some s \<longrightarrow>
      (\<exists>c kw. generate_xapi super_generate_xapi fw = Constructed c kw
         \<and> c = (if classify_exceptions fw then XapiWrapper else PanXapi)
         \<and> kw_hostname kw = pano_hostname p \<and> kw_port kw = pano_port p
         \<and> kw_api_key kw = pano_api_key p \<and> kw_serial kw = Some s))
   \<and> ((\<exists>c kw. generate_xapi super_generate_xapi fw = Constructed c kw)
        \<longleftrightarrow> panorama fw \<noteq> None \<and> serial fw \<noteq> None)
   \<and> (panorama fw = None \<or> serial fw = None \<longrightarrow>
        generate_xapi super_generate_xapi fw = Superclass (super_generate_xapi fw))"
  by (auto simp: generate_xapi_def split: option.splits)

theorem generate_xapi_via_panorama_witness:
  "panorama managed_fw = Some example_panorama \<and> serial managed_fw = Some ''001122334455''
   \<and> (\<exists>c kw. generate_xapi direct_connection managed_fw = Constructed c kw
         \<and> c = XapiWrapper
         \<and> kw_hostname kw = Some ''panorama.example.com'' \<and> kw_port kw = 443
         \<and> kw_api_key kw = Some ''pano-key'' \<and> kw_serial kw = Some ''001122334455'')
   \<and> serial example_fw = None
   \<and> generate_xapi direct_connection example_fw = Superclass (Some ''fw1.example.com'')"
proof -
  have m: "panorama managed_fw = Some example_panorama \<and> serial managed_fw = Some ''001122334455''"
    by (simp add: managed_fw_def)
  have n: "panorama example_fw = None \<or> serial example_fw = None"
    by (simp add: example_fw_def)
  from generate_xapi_via_panorama [of managed_fw example_panorama "''001122334455''" direct_connection] m
  have a: "\<exists>c kw. generate_xapi direct_connection managed_fw = Constructed c kw
         \<and> c = (if classify_exceptions managed_fw then XapiWrapper else PanXapi)
         \<and> kw_hostname kw = pano_hostname example_panorama \<and> kw_port kw = pano_port example_panorama
         \<and> kw_api_key kw = pano_api_key example_panorama \<and> kw_serial kw = Some ''001122334455''"
    by blast
  from generate_xapi_via_panorama [of example_fw example_panorama "''001122334455''" direct_connection] n
  have b: "generate_xapi direct_connection example_fw = Superclass (direct_connection example_fw)"
    by blast
  have c: "classify_exceptions managed_fw" "direct_connection example_fw = Some ''fw1.example.com''"
    "serial example_fw = None"
    by (simp_all add: managed_fw_def example_fw_def direct_connection_def)
  from a b c m show ?thesis
    by (simp add: example_panorama_def)
qed

section \<open>Creating and deleting the vsys\<close>

text \<open>
  Claim C9. When \<open>vsys\<close> does not start with \<^verbatim>\<open>vsys\<close> (for one, when it is
  \<^verbatim>\<open>shared\<close>), \<^verbatim>\<open>create\<close> and \<^verbatim>\<open>delete\<close> return normally and leave the whole
  state, the calls issued included, as it was.
\<close>

theorem create_delete_noop:
  assumes "\<not> startswith (vsys fw) ''vsys''"
  shows "create tostring xpath_device reply fw = (fw, Inr ())
         \<and> delete xpath_device reply fw = (fw, Inr ())"
  using assms by (simp add: create_def delete_def)

theorem create_delete_noop_witness:
  "\<not> startswith (vsys (example_fw\<lparr>vsys := ''shared''\<rparr>)) ''vsys''
   \<and> create (\<lambda>e. ''<entry />'') ''/config/devices/entry'' refuses (example_fw\<lparr>vsys := ''shared''\<rparr>)
       = (example_fw\<lparr>vsys := ''shared''\<rparr>, Inr ())
   \<and> delete ''/config/devices/entry'' refuses (example_fw\<lparr>vsys := ''shared''\<rparr>)
       = (example_fw\<lparr>vsys := ''shared''\<rparr>, Inr ())"
proof -
  have h: "\<not> startswith (vsys (example_fw\<lparr>vsys := ''shared''\<rparr>)) ''vsys''"
    by (simp add: startswith_def)
  from create_delete_noop [OF h] h show ?thesis by simp
qed

section \<open>Operational commands\<close>

text \<open>
  Claim C10. \<^verbatim>\<open>op\<close> issues one \<^verbatim>\<open>op\<close> call of the transport with the command
  given and, as the vsys, the firewall's own \<open>vsys\<close>, or \<^verbatim>\<open>vsys1\<close> when that is
  \<^verbatim>\<open>shared\<close>; when the transport answers, \<^verbatim>\<open>op\<close> returns the root element of the
  answer, and when the transport raises, so does \<^verbatim>\<open>op\<close>.
\<close>

theorem op_scope_hint:
  "xapi_calls (fst (op reply fw cmd cmd_xml extra_qs)) =
     xapi_calls fw @ [XOp cmd (Some (if vsys fw = ''shared'' then ''vsys1'' else vsys fw)) cmd_xml extra_qs]
   \<and> snd (op reply fw cmd cmd_xml extra_qs) =
     (case reply (XOp cmd (Some (if vsys fw = ''shared'' then ''vsys1'' else vsys fw)) cmd_xml extra_qs) of
        Inl e \<Rightarrow> Inl e
      | Inr root \<Rightarrow> Inr (Some root))"
  by (simp add: op_def xapi_def Let_def split: sum.splits)

theorem op_scope_hint_witness:
  "xapi_calls (fst (op (answers (PStr ''ok'')) (example_fw\<lparr>vsys := ''shared''\<rparr>)
                    (Some ''show system info'') True None)) =
     [XOp (Some ''show system info'') (Some ''vsys1'') True None]
   \<and> snd (op (answers (PStr ''ok'')) (example_fw\<lparr>vsys := ''shared''\<rparr>)
             (Some ''show system info'') True None) = Inr (Some (PStr ''ok''))
   \<and> xapi_calls (fst (op (answers (PStr ''ok'')) (example_fw\<lparr>vsys := ''vsys3''\<rparr>)
                    (Some ''show system info'') True None)) =
     [XOp (Some ''show system info'') (Some ''vsys3'') True None]"
  using op_scope_hint [of "answers (PStr ''ok'')" "example_fw\<lparr>vsys := ''shared''\<rparr>"
      "Some ''show system info''" True None]
    op_scope_hint [of "answers (PStr ''ok'')" "example_fw\<lparr>vsys := ''vsys3''\<rparr>"
      "Some ''show system info''" True None]
  by (simp add: example_fw_def answers_def)


section \<open>The interfaces index\<close>

subsection \<open>Attaching and detaching\<close>

text \<open>
  Claim C5, as the code has it. For an argument that is not an \<^verbatim>\<open>Interface\<close>,
  \<^verbatim>\<open>add_interface\<close> raises \<^verbatim>\<open>TypeError\<close> after its first statement,
  \<^verbatim>\<open>self.set_config_changed()\<close>: the state it leaves is the one it was given with the
  configuration marked as changed. The interfaces index, the objects, the calls issued
  and every other attribute are as before, and \<^verbatim>\<open>apply\<close> is not called.
\<close>

theorem add_interface_rejects:
  "add_interface iface_apply fw (Other_object v) apply = (fw\<lparr>config_changed := True\<rparr>, Inl TypeError)"
  by (simp add: add_interface_def set_config_changed_def)

theorem add_interface_rejects_witness:
  "add_interface no_method example_fw (Other_object (PStr ''ethernet1/3'')) True
     = (example_fw\<lparr>config_changed := True\<rparr>, Inl TypeError)
   \<and> interfaces (fst (add_interface no_method example_fw (Other_object (PStr ''ethernet1/3'')) True))
     = interfaces example_fw"
  using add_interface_rejects [of no_method example_fw "PStr ''ethernet1/3''" True]
  by simp

text \<open>
  Claim C5, as stated, asks for the whole state to be as before, the config-changed flag
  included. On a firewall whose configuration is not marked as changed, the call with a
  string for an interface raises \<^verbatim>\<open>TypeError\<close> and leaves the flag set.
\<close>

theorem add_interface_rejects_counterexample:
  "snd (add_interface no_method example_fw (Other_object (PStr ''ethernet1/3'')) True) = Inl TypeError
   \<and> config_changed example_fw = False
   \<and> config_changed (fst (add_interface no_method example_fw (Other_object (PStr ''ethernet1/3'')) True)) = True
   \<and> fst (add_interface no_method example_fw (Other_object (PStr ''ethernet1/3'')) True) \<noteq> example_fw"
proof -
  have a: "add_interface no_method example_fw (Other_object (PStr ''ethernet1/3'')) True
        = (example_fw\<lparr>config_changed := True\<rparr>, Inl TypeError)"
    by (simp add: add_interface_def set_config_changed_def)
  have b: "config_changed example_fw = False"
    by (simp add: example_fw_def)
  have c: "example_fw\<lparr>config_changed := True\<rparr> \<noteq> example_fw"
  proof
    assume "example_fw\<lparr>config_changed := True\<rparr> = example_fw"
    then have "config_changed (example_fw\<lparr>config_changed := True\<rparr>) = config_changed example_fw"
      by simp
    with b show False by simp
  qed
  from a b c show ?thesis by simp
qed

text \<open>
  Claim C6 at a concrete input. The index holds \<^verbatim>\<open>ethernet1/1\<close> (object 0) and
  \<^verbatim>\<open>ethernet1/1.5\<close> (object 1), the parent of object 1 is object 0 and object 0 has no
  subinterfaces. \<^verbatim>\<open>delete_interface(I, apply=False, delete_empty_parent=True)\<close> on
  object 1 returns normally; the name of the interface is gone from the index, the name
  of its parent is still there.
\<close>

theorem delete_interface_leaves_parent:
  "snd (delete_interface no_method example_fw 1 False True) = Inr ()
   \<and> if_parent (objs example_fw 1) = Some 0
   \<and> if_subinterfaces (objs example_fw 0) = []
   \<and> if_name (objs example_fw 0) = Some ''ethernet1/1''
   \<and> interfaces (fst (delete_interface no_method example_fw 1 False True)) (Some ''ethernet1/1.5'') = None
   \<and> interfaces (fst (delete_interface no_method example_fw 1 False True)) (Some ''ethernet1/1'') = Some 0"
  by (simp add: delete_interface_def set_config_changed_def example_fw_def example_objs_def
      no_interface_def no_method_def Let_def)

subsection \<open>The loop over the interface entries\<close>


lemma ifnet_loop_Cons_ok:
  assumes "ifnet_loop hw (entry # rest) fw ifs = (fw', Inr ifs')"
  shows "\<exists>k zn rt ip st.
           entry_names (entry # rest) = k # entry_names rest
           \<and> ifnet_loop hw rest (fst (Interface k zn rt [ip] st fw))
                 (ifs(k \<mapsto> snd (Interface k zn rt [ip] st fw))) = (fw', Inr ifs')"
proof (cases "getitem entry ''fwd''")
  case (Inl e)
  with assms show ?thesis by simp
next
  case fwd: (Inr fwd)
  show ?thesis
  proof (cases "router_of fwd")
    case (Inl e)
    with assms fwd show ?thesis by simp
  next
    case rt: (Inr rt)
    show ?thesis
    proof (cases "getitem entry ''name''")
      case (Inl e)
      with assms fwd rt show ?thesis by simp
    next
      case nm: (Inr nm)
      show ?thesis
      proof (cases "getitem entry ''zone''")
        case (Inl e)
        with assms fwd rt nm show ?thesis by simp
      next
        case zn: (Inr zn)
        show ?thesis
        proof (cases "getitem entry ''ip''")
          case (Inl e)
          with assms fwd rt nm zn show ?thesis by simp
        next
          case ip: (Inr ip)
          show ?thesis
          proof (cases "key_of nm")
            case (Inl e)
            with assms fwd rt nm zn ip show ?thesis by simp
          next
            case k: (Inr k)
            show ?thesis
            proof (cases "py_get (case hw k of None \<Rightarrow> PDict [] | Some h \<Rightarrow> h) ''state'' PNone")
              case (Inl e)
              with assms fwd rt nm zn ip k show ?thesis by simp
            next
              case st: (Inr st)
              from assms fwd rt nm zn ip k st have
                "ifnet_loop hw rest (fst (Interface k zn rt [ip] st fw))
                   (ifs(k \<mapsto> snd (Interface k zn rt [ip] st fw))) = (fw', Inr ifs')"
                by (simp split: prod.splits)
              moreover from nm k have "entry_names (entry # rest) = k # entry_names rest"
                by simp
              ultimately show ?thesis by blast
            qed
          qed
        qed
      qed
    qed
  qed
qed

text \<open>
  A loop that completes has bound the name of every entry, and nothing else, in the
  local dictionary; the index of the firewall is not touched by the loop.
\<close>

lemma ifnet_loop_names:
  "ifnet_loop hw es fw ifs = (fw', Inr ifs') \<Longrightarrow>
     dom ifs' = dom ifs \<union> set (entry_names es) \<and> interfaces fw' = interfaces fw"
proof (induction es arbitrary: fw ifs)
  case Nil
  then show ?case by simp
next
  case (Cons entry rest)
  from ifnet_loop_Cons_ok [OF Cons.prems] obtain k zn rt ip st where
    g: "entry_names (entry # rest) = k # entry_names rest"
    and step: "ifnet_loop hw rest (fst (Interface k zn rt [ip] st fw))
                 (ifs(k \<mapsto> snd (Interface k zn rt [ip] st fw))) = (fw', Inr ifs')"
    by blast
  from Cons.IH [OF step] g show ?case
    by (auto simp: Interface_def)
qed

lemma rebuild_early:
  assumes "py_get result ''hw'' (PDict []) = Inr PNone \<or> py_get result ''ifnet'' (PDict []) = Inr PNone"
    and "rebuild result fw = (fw', Inr ())"
  shows "interfaces fw' = interfaces fw"
  using assms
  by (auto simp: rebuild_def split: if_splits sum.splits)

lemma rebuild_assigns:
  assumes "py_get result ''hw'' (PDict []) \<noteq> Inr PNone"
    and "py_get result ''ifnet'' (PDict []) \<noteq> Inr PNone"
    and "rebuild result fw = (fw', Inr ())"
  shows "dom (interfaces fw') = set (entry_names (ifnet_entries result))"
proof -
  from assms have
    "\<exists>hw fw1 ifs. ifnet_loop hw (ifnet_entries result) fw Map.empty = (fw1, Inr ifs)
        \<and> interfaces fw' = ifs"
    by (auto simp: rebuild_def ifnet_entries_def split: if_splits sum.splits prod.splits) blast
  then obtain hw fw1 ifs where
    l: "ifnet_loop hw (ifnet_entries result) fw Map.empty = (fw1, Inr ifs)"
    and e: "interfaces fw' = ifs"
    by blast
  from ifnet_loop_names [OF l] e show ?thesis
    by simp
qed

lemma refresh_interfaces_answered:
  assumes "reply (XOp (Some ''show interface \"all\"'') None True None) = Inr doc"
    and "envelope (python (Some doc)) = Inr result"
  shows "refresh_interfaces python reply fw =
           rebuild result
             (fw\<lparr>xapi_calls := xapi_calls fw @ [XOp (Some ''show interface \"all\"'') None True None],
                 element_root := Some doc\<rparr>)"
  using assms by (simp add: refresh_interfaces_def xapi_def)

subsection \<open>Refreshing\<close>

text \<open>
  Claim C3, as the code has it. When \<^verbatim>\<open>refresh_interfaces\<close> returns normally, either
  the \<^verbatim>\<open>hw\<close> or the \<^verbatim>\<open>ifnet\<close> container of the result is \<^verbatim>\<open>None\<close>, the method
  has returned early and the index is the one it was given; or the index has been
  replaced and its names are exactly the names of the interface entries of the remote
  result, so that a local entry whose name is absent from the remote response is no
  longer in the index.
\<close>

theorem refresh_interfaces_replaces_index:
  assumes "reply (XOp (Some ''show interface \"all\"'') None True None) = Inr doc"
    and "envelope (python (Some doc)) = Inr result"
    and "refresh_interfaces python reply fw = (fw', Inr ())"
  shows "if py_get result ''hw'' (PDict []) = Inr PNone \<or> py_get result ''ifnet'' (PDict []) = Inr PNone
         then interfaces fw' = interfaces fw
         else dom (interfaces fw') = set (entry_names (ifnet_entries result))"
proof -
  let ?fw1 = "fw\<lparr>xapi_calls := xapi_calls fw @ [XOp (Some ''show interface \"all\"'') None True None],
                 element_root := Some doc\<rparr>"
  from refresh_interfaces_answered
         [where reply = reply and python = python and fw = fw, OF assms(1) assms(2)] assms(3)
  have r: "rebuild result ?fw1 = (fw', Inr ())"
    by simp
  show ?thesis
  proof (cases "py_get result ''hw'' (PDict []) = Inr PNone \<or> py_get result ''ifnet'' (PDict []) = Inr PNone")
    case True
    from rebuild_early [OF True r] True show ?thesis by simp
  next
    case False
    then have "py_get result ''hw'' (PDict []) \<noteq> Inr PNone"
      and "py_get result ''ifnet'' (PDict []) \<noteq> Inr PNone"
      by simp_all
    from rebuild_assigns [OF this r] False show ?thesis by simp
  qed
qed

lemma refresh_one_interface:
  "refresh_interfaces python_of (answers (in_envelope one_interface_result)) example_fw
     = (fst (refresh_interfaces python_of (answers (in_envelope one_interface_result)) example_fw), Inr ())"
  by (simp add: refresh_interfaces_def xapi_def answers_def python_of_def in_envelope_def
      one_interface_result_def envelope_def rebuild_def Interface_def)

theorem refresh_interfaces_replaces_index_witness:
  "answers (in_envelope one_interface_result) (XOp (Some ''show interface \"all\"'') None True None)
     = Inr (in_envelope one_interface_result)
   \<and> envelope (python_of (Some (in_envelope one_interface_result))) = Inr one_interface_result
   \<and> snd (refresh_interfaces python_of (answers (in_envelope one_interface_result)) example_fw) = Inr ()
   \<and> dom (interfaces (fst (refresh_interfaces python_of (answers (in_envelope one_interface_result)) example_fw)))
       = {Some ''ethernet1/2''}"
proof -
  have a: "answers (in_envelope one_interface_result) (XOp (Some ''show interface \"all\"'') None True None)
     = Inr (in_envelope one_interface_result)"
    by (simp add: answers_def)
  have b: "envelope (python_of (Some (in_envelope one_interface_result))) = Inr one_interface_result"
    by (simp add: envelope_def python_of_def in_envelope_def)
  have c: "py_get one_interface_result ''hw'' (PDict []) \<noteq> Inr PNone"
    "py_get one_interface_result ''ifnet'' (PDict []) \<noteq> Inr PNone"
    by (simp_all add: one_interface_result_def)
  have d: "set (entry_names (ifnet_entries one_interface_result)) = {Some ''ethernet1/2''}"
    by (simp add: ifnet_entries_def one_interface_result_def)
  from refresh_interfaces_replaces_index
         [where reply = "answers (in_envelope one_interface_result)" and python = python_of,
          OF a b refresh_one_interface] c d
  have "dom (interfaces (fst (refresh_interfaces python_of (answers (in_envelope one_interface_result)) example_fw)))
       = {Some ''ethernet1/2''}"
    by simp
  moreover from refresh_one_interface
  have "snd (refresh_interfaces python_of (answers (in_envelope one_interface_result)) example_fw) = Inr ()"
    by (metis snd_conv)
  ultimately show ?thesis using a b by simp
qed

text \<open>
  Claim C3, as stated, keeps a local entry that the remote response does not name. The
  index holds \<^verbatim>\<open>ethernet1/1\<close>; the remote response names \<^verbatim>\<open>ethernet1/2\<close> only;
  after the refresh has returned normally, \<^verbatim>\<open>ethernet1/1\<close> is not in the index.
\<close>

theorem refresh_interfaces_keeps_stale_counterexample:
  "interfaces example_fw (Some ''ethernet1/1'') = Some 0
   \<and> Some ''ethernet1/1'' \<notin> set (entry_names (ifnet_entries one_interface_result))
   \<and> snd (refresh_interfaces python_of (answers (in_envelope one_interface_result)) example_fw) = Inr ()
   \<and> interfaces (fst (refresh_interfaces python_of (answers (in_envelope one_interface_result)) example_fw))
       (Some ''ethernet1/1'') = None"
  by (simp add: refresh_interfaces_def xapi_def answers_def python_of_def in_envelope_def
      one_interface_result_def envelope_def rebuild_def Interface_def example_fw_def
      ifnet_entries_def)




text \<open>
  Why the third case asks for a normal return: the loop over the hardware entries runs
  before \<^verbatim>\<open>ifnet\<close> is looked at, so a hardware entry that is \<^verbatim>\<open>None\<close> raises
  \<^verbatim>\<open>TypeError\<close> although \<^verbatim>\<open>ifnet\<close> is \<^verbatim>\<open>None\<close>.
\<close>

lemma refresh_ifnet_none_raises:
  "snd (refresh_interfaces python_of
          (answers (in_envelope (PDict [(''hw'', PDict [(''entry'', PList [PNone])]), (''ifnet'', PNone)])))
          example_fw) = Inl TypeError"
  by (simp add: refresh_interfaces_def xapi_def answers_def python_of_def in_envelope_def
      envelope_def rebuild_def)



end
